theory Spec2Isabelle
  imports Main
begin

section \<open>The relayer client of src/relayer/index.ts\<close>

text \<open>
  The module wraps an external relay client (package @polymarket/relayer-client) and an
  external wallet constructor (ethers.Wallet). Both are outside the sources: the relay
  client's methods are a record of functions handed to every operation, the wallet
  constructor is a function handed to the constructor. Every operation returns its
  outcome together with the list of calls it made on the relay client, in order.
\<close>

subsection \<open>Errors\<close>

text \<open>
  A thrown JavaScript value, told apart as far as the module can: every \<open>catch\<close> of the
  module is \<open>catch (error: any)\<close> and evaluates \<open>${error.message}\<close>, nothing else.
  \<^item> \<open>JsError name message\<close>: an object called \<open>name\<close> for which \<open>${error.message}\<close>
    gives the text \<open>message\<close> (its message, or "undefined" when it has none);
  \<^item> \<open>ThrownNullish\<close>: \<open>undefined\<close> or \<open>null\<close> itself was thrown, so that reading its
    \<open>message\<close> throws a TypeError;
  \<^item> \<open>ThrowingMessage t\<close>: an object for which evaluating \<open>${error.message}\<close> throws \<open>t\<close>
    (a getter or a string conversion that throws).
  The module itself only ever throws \<open>new Error(msg)\<close>, whose name is "Error".
\<close>

datatype nullish = JsUndefined | JsNull

datatype js_error =
    JsError string string
  | ThrownNullish nullish
  | ThrowingMessage js_error

definition Error :: "string \<Rightarrow> js_error" where
  "Error msg = JsError ''Error'' msg"

text \<open>The TypeError of reading property \<open>prop\<close> of \<open>undefined\<close> or \<open>null\<close>. The name is the
  language's; the message is the engine's, here as Node's V8 words it.\<close>

definition nullish_text :: "nullish \<Rightarrow> string" where
  "nullish_text k = (case k of JsUndefined \<Rightarrow> ''undefined'' | JsNull \<Rightarrow> ''null'')"

definition TypeError_reading :: "nullish \<Rightarrow> string \<Rightarrow> js_error" where
  "TypeError_reading k prop =
     JsError ''TypeError''
       (''Cannot read properties of '' @ nullish_text k @ '' (reading '' @
        [CHR 0x27] @ prop @ [CHR 0x27] @ '')'')"

subsection \<open>Configuration (RelayerConfig)\<close>

text \<open>
  \<open>backend: { privateKey: string }\<close>, \<open>frontend: { signer: any }\<close>. An absent or falsy
  signer is \<open>None\<close>. The empty private key is the falsy one.

  A signer is untyped. The constructor asks whether it is truthy and whether its
  \<open>getAddress\<close> is a function, and then evaluates \<open>signer.getAddress().then(reaction)\<close>.
  \<open>getAddress s\<close> is \<open>None\<close> when \<open>getAddress\<close> is not a function, and otherwise says
  what that expression does: the call throws; it returns \<open>undefined\<close> or \<open>null\<close>; it
  returns a value whose \<open>then\<close> is not a function; its \<open>then\<close> throws; or it returns a
  thenable (a promise, for one) that takes the reaction. When and how often the thenable
  then calls the reaction is up to it; each call is an event on the object (see \<open>step\<close>).
  A promise makes its one call after the constructor has returned.
\<close>

record backend_config =
  privateKey :: string

datatype getAddress_call =
    GetAddressThrows js_error
  | ReturnsNullish nullish
  | ReturnsNonThenable
  | ThenThrows js_error
  | ReturnsThenable

datatype js_signer = Signer (signer_id: string) (getAddress: "getAddress_call option")


record frontend_config =
  signer :: "js_signer option"

type_synonym auth_config = "string \<times> string"

record relayer_config =
  relayerUrl :: "string option"
  chainId :: "int option"
  backend :: "backend_config option"
  frontend :: "frontend_config option"
  auth :: "auth_config option"

definition DEFAULT_RELAYER_URL :: string where
  "DEFAULT_RELAYER_URL = ''https://relayer.polymarket.com''"

subsection \<open>The client object\<close>

text \<open>
  What \<open>new RelayClient(relayerUrl, chainId, signer, auth?)\<close> was built from. The signer
  is either the local wallet made from the private key (with its address) or the signer
  the caller supplied.
\<close>

datatype client_signer = LocalWallet string string | ProvidedSigner js_signer

record relay_client =
  rc_relayerUrl :: string
  rc_chainId :: int
  rc_signer :: client_signer
  rc_auth :: "auth_config option"

text \<open>
  The fields of \<open>RelayerClient\<close>. \<open>addressPending\<close> is not a field of the class: it says
  whether the constructor has handed the reaction \<open>(addr) => { this.walletAddress = addr; }\<close>
  to the signer's thenable. The source never takes the reaction back, so the flag never
  changes after construction.
\<close>

record relayer_client =
  client :: relay_client
  config :: relayer_config
  walletAddress :: "string option"
  addressPending :: bool

text \<open>\<open>config.relayerUrl || DEFAULT_RELAYER_URL\<close> and \<open>config.chainId || 137\<close>.\<close>

definition relayerUrl_or_default :: "relayer_config \<Rightarrow> string" where
  "relayerUrl_or_default cfg =
     (case relayerUrl cfg of
        None \<Rightarrow> DEFAULT_RELAYER_URL
      | Some u \<Rightarrow> if u = [] then DEFAULT_RELAYER_URL else u)"

definition chainId_or_default :: "relayer_config \<Rightarrow> int" where
  "chainId_or_default cfg =
     (case chainId cfg of
        None \<Rightarrow> 137
      | Some c \<Rightarrow> if c = 0 then 137 else c)"

text \<open>\<open>config.backend?.privateKey\<close> and \<open>config.frontend?.signer\<close>, \<open>None\<close> when falsy.\<close>

definition backend_privateKey :: "relayer_config \<Rightarrow> string option" where
  "backend_privateKey cfg =
     (case backend cfg of
        None \<Rightarrow> None
      | Some b \<Rightarrow> if privateKey b = [] then None else Some (privateKey b))"

definition frontend_signer :: "relayer_config \<Rightarrow> js_signer option" where
  "frontend_signer cfg =
     (case frontend cfg of
        None \<Rightarrow> None
      | Some f \<Rightarrow> signer f)"

text \<open>
  \<open>if (typeof signer.getAddress === "function") { signer.getAddress().then(...) }\<close>:
  \<open>Inl\<close> is what the statement throws, \<open>Inr\<close> says whether the reaction was handed over.
  The TypeError of calling a \<open>then\<close> that is not a function has the engine's message,
  here as Node's V8 words it.
\<close>

definition register_reaction :: "js_signer \<Rightarrow> js_error + bool" where
  "register_reaction s =
     (case getAddress s of
        None \<Rightarrow> Inr False
      | Some (GetAddressThrows e) \<Rightarrow> Inl e
      | Some (ReturnsNullish k) \<Rightarrow> Inl (TypeError_reading k ''then'')
      | Some ReturnsNonThenable \<Rightarrow>
          Inl (JsError ''TypeError'' ''signer.getAddress(...).then is not a function'')
      | Some (ThenThrows e) \<Rightarrow> Inl e
      | Some ReturnsThenable \<Rightarrow> Inr True)"

text \<open>
  The constructor. \<open>wallet_address key\<close> stands for \<open>new ethers.Wallet(key).address\<close>:
  \<open>Inl\<close> when the wallet constructor throws. Nothing in the constructor catches, so what
  the wallet constructor or the signer throws leaves it as it is.
  \<open>Inl\<close> of the result is a throw: no object exists then.
\<close>

definition RelayerClient_constructor ::
  "(string \<Rightarrow> js_error + string) \<Rightarrow> relayer_config \<Rightarrow> js_error + relayer_client" where
  "RelayerClient_constructor wallet_address cfg =
     (if backend cfg = None \<and> frontend cfg = None then
        Inl (Error (''Relayer configuration must include either 'backend' or 'frontend' mode. '' @
                    ''For automated systems use 'backend' with privateKey. '' @
                    ''For web apps use 'frontend' with signer.''))
      else
        (case backend_privateKey cfg of
           Some key \<Rightarrow>
             (case wallet_address key of
                Inl e \<Rightarrow> Inl e
              | Inr addr \<Rightarrow>
                  Inr \<lparr>client = \<lparr>rc_relayerUrl = relayerUrl_or_default cfg,
                                 rc_chainId = chainId_or_default cfg,
                                 rc_signer = LocalWallet key addr,
                                 rc_auth = auth cfg\<rparr>,
                       config = cfg,
                       walletAddress = Some addr,
                       addressPending = False\<rparr>)
         | None \<Rightarrow>
             (case frontend_signer cfg of
                Some s \<Rightarrow>
                  (case register_reaction s of
                     Inl e \<Rightarrow> Inl e
                   | Inr registered \<Rightarrow>
                       Inr \<lparr>client = \<lparr>rc_relayerUrl = relayerUrl_or_default cfg,
                                      rc_chainId = chainId_or_default cfg,
                                      rc_signer = ProvidedSigner s,
                                      rc_auth = auth cfg\<rparr>,
                            config = cfg,
                            walletAddress = None,
                            addressPending = registered\<rparr>)
              | None \<Rightarrow> Inl (Error ''Invalid relayer configuration''))))"

definition createRelayerClient ::
  "(string \<Rightarrow> js_error + string) \<Rightarrow> relayer_config \<Rightarrow> js_error + relayer_client" where
  "createRelayerClient wallet_address cfg = RelayerClient_constructor wallet_address cfg"

definition getWalletAddress :: "relayer_client \<Rightarrow> string option" where
  "getWalletAddress this = walletAddress this"

definition getRawClient :: "relayer_client \<Rightarrow> relay_client" where
  "getRawClient this = client this"

subsection \<open>The relay client's methods\<close>

record proxy_transaction =
  ptx_to :: string
  ptx_typeCode :: string
  ptx_data :: string
  ptx_value :: string

record safe_transaction =
  stx_to :: string
  stx_operation :: int
  stx_data :: string
  stx_value :: string

text \<open>A submission response of the relay; a field it does not carry reads \<open>undefined\<close>.\<close>

record relay_response =
  r_transactionID :: "string option"
  r_state :: "string option"
  r_hash :: "string option"
  r_transactionHash :: "string option"

text \<open>The record the module returns (\<open>RelayerTransactionResponse\<close>).\<close>

record relayer_transaction_response =
  transactionId :: "string option"
  state :: "string option"
  hash :: "string option"
  transactionHash :: "string option"

text \<open>A transaction as the relay reports it.\<close>

record relayer_transaction =
  tx_transactionID :: string
  tx_state :: string
  tx_hash :: "string option"
  tx_transactionHash :: "string option"

text \<open>
  The methods of \<open>this.client\<close> the module calls; \<open>Inl\<close> is a rejected promise.
  \<open>getRelayAddress\<close> and \<open>getNonce\<close> give the \<open>address\<close> and \<open>nonce\<close> field of the
  response.
\<close>

record transport =
  rc_getRelayAddress :: "js_error + string option"
  rc_getNonce :: "string \<Rightarrow> string \<Rightarrow> js_error + string option"
  rc_executeProxyTransactions ::
    "proxy_transaction list \<Rightarrow> string option \<Rightarrow> js_error + relay_response"
  rc_executeSafeTransactions ::
    "safe_transaction list \<Rightarrow> string option \<Rightarrow> js_error + relay_response"
  rc_deploySafe :: "js_error + relay_response"
  rc_getTransaction :: "string \<Rightarrow> js_error + relayer_transaction list"
  rc_getTransactions :: "js_error + relayer_transaction list"
  rc_pollUntilState ::
    "string \<Rightarrow> string list \<Rightarrow> string \<Rightarrow> int \<Rightarrow> int
       \<Rightarrow> js_error + relayer_transaction option"

datatype transport_call =
    GetRelayAddress
  | GetNonce string string
  | ExecuteProxyTransactions "proxy_transaction list" "string option"
  | ExecuteSafeTransactions "safe_transaction list" "string option"
  | DeploySafe
  | GetTransaction string
  | GetTransactions
  | PollUntilState string "string list" string int int

subsection \<open>Operations\<close>

text \<open>
  \<open>catch (error: any) { throw new Error(`<prefix>: ${error.message}`) }\<close>: what leaves
  the \<open>catch\<close>. The new \<open>Error\<close> is thrown only when the message could be read.
\<close>

definition rethrow :: "string \<Rightarrow> js_error \<Rightarrow> js_error" where
  "rethrow prefix e =
     (case e of
        JsError name message \<Rightarrow> Error (prefix @ '': '' @ message)
      | ThrownNullish k \<Rightarrow> TypeError_reading k ''message''
      | ThrowingMessage t \<Rightarrow> t)"

definition getRelayerAddress ::
  "transport \<Rightarrow> relayer_client \<Rightarrow> (js_error + string option) \<times> transport_call list" where
  "getRelayerAddress rc this =
     (case rc_getRelayAddress rc of
        Inl e \<Rightarrow> (Inl (rethrow ''Failed to get relayer address'' e), [GetRelayAddress])
      | Inr a \<Rightarrow> (Inr a, [GetRelayAddress]))"



text \<open>The object literal the three submission operations build from the response.\<close>

definition response_record :: "relay_response \<Rightarrow> relayer_transaction_response" where
  "response_record response =
     \<lparr>transactionId = r_transactionID response,
      state = r_state response,
      hash = r_hash response,
      transactionHash = r_transactionHash response\<rparr>"

definition executeProxyTransactions ::
  "transport \<Rightarrow> relayer_client \<Rightarrow> proxy_transaction list \<Rightarrow> string option
     \<Rightarrow> (js_error + relayer_transaction_response) \<times> transport_call list" where
  "executeProxyTransactions rc this transactions metadata =
     (case rc_executeProxyTransactions rc transactions metadata of
        Inl e \<Rightarrow> (Inl (rethrow ''Failed to execute proxy transactions'' e),
                  [ExecuteProxyTransactions transactions metadata])
      | Inr response \<Rightarrow> (Inr (response_record response),
                         [ExecuteProxyTransactions transactions metadata]))"

definition executeSafeTransactions ::
  "transport \<Rightarrow> relayer_client \<Rightarrow> safe_transaction list \<Rightarrow> string option
     \<Rightarrow> (js_error + relayer_transaction_response) \<times> transport_call list" where
  "executeSafeTransactions rc this transactions metadata =
     (case rc_executeSafeTransactions rc transactions metadata of
        Inl e \<Rightarrow> (Inl (rethrow ''Failed to execute safe transactions'' e),
                  [ExecuteSafeTransactions transactions metadata])
      | Inr response \<Rightarrow> (Inr (response_record response),
                         [ExecuteSafeTransactions transactions metadata]))"

definition deploySafe ::
  "transport \<Rightarrow> relayer_client
     \<Rightarrow> (js_error + relayer_transaction_response) \<times> transport_call list" where
  "deploySafe rc this =
     (case rc_deploySafe rc of
        Inl e \<Rightarrow> (Inl (rethrow ''Failed to deploy safe'' e), [DeploySafe])
      | Inr response \<Rightarrow> (Inr (response_record response), [DeploySafe]))"

definition getTransaction ::
  "transport \<Rightarrow> relayer_client \<Rightarrow> string
     \<Rightarrow> (js_error + relayer_transaction list) \<times> transport_call list" where
  "getTransaction rc this transactionId' =
     (case rc_getTransaction rc transactionId' of
        Inl e \<Rightarrow> (Inl (rethrow ''Failed to get transaction'' e), [GetTransaction transactionId'])
      | Inr txs \<Rightarrow> (Inr txs, [GetTransaction transactionId']))"

definition getTransactions ::
  "transport \<Rightarrow> relayer_client
     \<Rightarrow> (js_error + relayer_transaction list) \<times> transport_call list" where
  "getTransactions rc this =
     (case rc_getTransactions rc of
        Inl e \<Rightarrow> (Inl (rethrow ''Failed to get transactions'' e), [GetTransactions])
      | Inr txs \<Rightarrow> (Inr txs, [GetTransactions]))"

text \<open>
  \<open>waitForTransaction(transactionId, desiredStates = ["STATE_CONFIRMED"],
  failState = "STATE_FAILED", maxPolls = 60, pollFrequency = 2000)\<close>: an omitted argument
  is \<open>None\<close> and takes its default; the result \<open>None\<close> is \<open>undefined\<close>.
\<close>

definition waitForTransaction ::
  "transport \<Rightarrow> relayer_client \<Rightarrow> string \<Rightarrow> string list option \<Rightarrow> string option
     \<Rightarrow> int option \<Rightarrow> int option
     \<Rightarrow> (js_error + relayer_transaction option) \<times> transport_call list" where
  "waitForTransaction rc this transactionId' desiredStates failState maxPolls pollFrequency =
     (let desiredStates' = (case desiredStates of None \<Rightarrow> [''STATE_CONFIRMED''] | Some d \<Rightarrow> d);
          failState' = (case failState of None \<Rightarrow> ''STATE_FAILED'' | Some f \<Rightarrow> f);
          maxPolls' = (case maxPolls of None \<Rightarrow> 60 | Some m \<Rightarrow> m);
          pollFrequency' = (case pollFrequency of None \<Rightarrow> 2000 | Some p \<Rightarrow> p)
      in case rc_pollUntilState rc transactionId' desiredStates' failState' maxPolls' pollFrequency' of
           Inl e \<Rightarrow> (Inl (rethrow ''Failed to wait for transaction'' e),
                     [PollUntilState transactionId' desiredStates' failState' maxPolls' pollFrequency'])
         | Inr r \<Rightarrow> (Inr r,
                     [PollUntilState transactionId' desiredStates' failState' maxPolls' pollFrequency']))"

subsection \<open>What happens to the object after construction\<close>

text \<open>
  After construction the object sees method calls and what the signer's thenable does
  with the reaction \<open>(addr) => { this.walletAddress = addr; }\<close>: \<open>AddressResolved addr\<close> is
  one call of the reaction with \<open>addr\<close>, which assigns the field every time it is called;
  \<open>AddressRejected\<close> is a rejection, for which no handler was given. The reaction exists
  only when the constructor handed it over. No method assigns a field of \<open>this\<close>.
\<close>

datatype method_call =
    CallGetRelayerAddress
  | CallGetNonce "string option" "string option"
  | CallExecuteProxyTransactions "proxy_transaction list" "string option"
  | CallExecuteSafeTransactions "safe_transaction list" "string option"
  | CallDeploySafe
  | CallGetTransaction string
  | CallGetTransactions
  | CallWaitForTransaction string "string list option" "string option" "int option" "int option"
  | CallGetWalletAddress
  | CallGetRawClient








subsection \<open>The polling loop of the relay client\<close>

text \<open>
  Modelled from the spec: \<open>pollUntilState\<close> is a method of the external relay client
  (package @polymarket/relayer-client) and is not in the sources; only its caller
  \<open>waitForTransaction\<close> is. The loop below follows the algorithm the specification gives
  for the confirmation poller: query the record; a state among the desired ones returns
  the record; the fail state returns the "not reached" result (\<open>None\<close>); otherwise poll
  again while the budget lasts; an exhausted budget returns "not reached". A transport
  error is propagated. \<open>relay k\<close> is what the relay answers to the \<open>k\<close>-th query (counted
  from 0); the second component of the result is the number of queries made.
\<close>

fun poll_loop ::
  "(nat \<Rightarrow> js_error + relayer_transaction) \<Rightarrow> string list \<Rightarrow> string \<Rightarrow> nat \<Rightarrow> nat
     \<Rightarrow> (js_error + relayer_transaction option) \<times> nat" where
  "poll_loop relay desiredStates failState 0 polls = (Inr None, polls)"
| "poll_loop relay desiredStates failState (Suc budget) polls =
     (case relay polls of
        Inl e \<Rightarrow> (Inl e, Suc polls)
      | Inr tx \<Rightarrow>
          if tx_state tx \<in> set desiredStates then (Inr (Some tx), Suc polls)
          else if tx_state tx = failState then (Inr None, Suc polls)
          else poll_loop relay desiredStates failState budget (Suc polls))"

text \<open>
  Modelled from the spec: the entry point of the poller, given
  \<open>(id, desiredStates, failState, maxPolls, pollIntervalMs)\<close>. The budget is \<open>maxPolls\<close>
  queries, counted from the first one; the interval spaces the queries in time and does
  not enter the result.
\<close>

definition pollUntilState ::
  "(string \<Rightarrow> nat \<Rightarrow> js_error + relayer_transaction) \<Rightarrow> string \<Rightarrow> string list \<Rightarrow> string
     \<Rightarrow> int \<Rightarrow> int \<Rightarrow> (js_error + relayer_transaction option) \<times> nat" where
  "pollUntilState relay transactionId' desiredStates failState maxPolls pollIntervalMs =
     poll_loop (relay transactionId') desiredStates failState (nat maxPolls) 0"

text \<open>A relay client whose \<open>pollUntilState\<close> runs that loop against \<open>relay\<close>.\<close>

definition polling_transport ::
  "(string \<Rightarrow> nat \<Rightarrow> js_error + relayer_transaction) \<Rightarrow> transport \<Rightarrow> transport" where
  "polling_transport relay rc =
     rc\<lparr>rc_pollUntilState :=
          (\<lambda>i ds fs mp pf. fst (pollUntilState relay i ds fs mp pf))\<rparr>"

text \<open>A state that is neither desired nor the fail state: the loop polls again.\<close>

definition still_pending ::
  "string list \<Rightarrow> string \<Rightarrow> js_error + relayer_transaction \<Rightarrow> bool" where
  "still_pending desiredStates failState answer =
     (case answer of
        Inl e \<Rightarrow> False
      | Inr tx \<Rightarrow> tx_state tx \<notin> set desiredStates \<and> tx_state tx \<noteq> failState)"

subsection \<open>Concrete environments\<close>

text \<open>A wallet constructor that accepts one key and throws on every other.\<close>

definition sample_wallet_address :: "string \<Rightarrow> js_error + string" where
  "sample_wallet_address key =
     (if key = ''0xKEY'' then Inr ''0xADDR'' else Inl (JsError ''TypeError'' ''invalid private key''))"

definition sample_signer :: js_signer where
  "sample_signer = Signer ''browser'' (Some ReturnsThenable)"

definition empty_config :: relayer_config where
  "empty_config = \<lparr>relayerUrl = None, chainId = None, backend = None, frontend = None, auth = None\<rparr>"

definition backend_only_config :: relayer_config where
  "backend_only_config = empty_config\<lparr>backend := Some \<lparr>privateKey = ''0xKEY''\<rparr>\<rparr>"

definition frontend_only_config :: relayer_config where
  "frontend_only_config = empty_config\<lparr>frontend := Some \<lparr>signer = Some sample_signer\<rparr>\<rparr>"

definition both_config :: relayer_config where
  "both_config = backend_only_config\<lparr>frontend := Some \<lparr>signer = Some sample_signer\<rparr>\<rparr>"

definition both_empty_key_config :: relayer_config where
  "both_empty_key_config = frontend_only_config\<lparr>backend := Some \<lparr>privateKey = []\<rparr>\<rparr>"

definition both_bad_key_config :: relayer_config where
  "both_bad_key_config = frontend_only_config\<lparr>backend := Some \<lparr>privateKey = ''0xZZ''\<rparr>\<rparr>"

text \<open>The objects the constructor builds from \<open>backend_only_config\<close> and from
  \<open>frontend_only_config\<close>.\<close>

definition sample_backend_client :: relayer_client where
  "sample_backend_client =
     \<lparr>client = \<lparr>rc_relayerUrl = ''https://relayer.polymarket.com'',
                rc_chainId = 137,
                rc_signer = LocalWallet ''0xKEY'' ''0xADDR'',
                rc_auth = None\<rparr>,
      config = backend_only_config,
      walletAddress = Some ''0xADDR'',
      addressPending = False\<rparr>"


text \<open>A relay client that accepts every request.\<close>

definition sample_response :: relay_response where
  "sample_response =
     \<lparr>r_transactionID = Some ''tx-1'', r_state = Some ''STATE_NEW'',
      r_hash = None, r_transactionHash = None\<rparr>"

definition accepting_transport :: transport where
  "accepting_transport =
     \<lparr>rc_getRelayAddress = Inr (Some ''0xRELAY''),
      rc_getNonce = (\<lambda>a t. Inr (Some ''7'')),
      rc_executeProxyTransactions = (\<lambda>txs m. Inr sample_response),
      rc_executeSafeTransactions = (\<lambda>txs m. Inr sample_response),
      rc_deploySafe = Inr sample_response,
      rc_getTransaction = (\<lambda>i. Inr []),
      rc_getTransactions = Inr [],
      rc_pollUntilState = (\<lambda>i ds fs mp pf. Inr None)\<rparr>"

text \<open>A relay client whose submission responses carry a state and nothing else.\<close>

definition state_only_response :: relay_response where
  "state_only_response =
     \<lparr>r_transactionID = None, r_state = Some ''STATE_NEW'',
      r_hash = None, r_transactionHash = None\<rparr>"

definition anonymous_transport :: transport where
  "anonymous_transport =
     accepting_transport
       \<lparr>rc_executeProxyTransactions := (\<lambda>txs m. Inr state_only_response),
        rc_executeSafeTransactions := (\<lambda>txs m. Inr state_only_response),
        rc_deploySafe := Inr state_only_response\<rparr>"

text \<open>A relay client whose \<open>pollUntilState\<close> throws an error named "Cancelled".\<close>

definition aborting_transport :: transport where
  "aborting_transport =
     accepting_transport
       \<lparr>rc_pollUntilState := (\<lambda>i ds fs mp pf. Inl (JsError ''Cancelled'' ''aborted''))\<rparr>"

text \<open>A relay client whose \<open>pollUntilState\<close> fails with an ordinary error of the same
  message.\<close>

definition broken_transport :: transport where
  "broken_transport =
     accepting_transport
       \<lparr>rc_pollUntilState := (\<lambda>i ds fs mp pf. Inl (JsError ''Error'' ''aborted''))\<rparr>"

text \<open>Relays for the polling loop: one that never leaves \<open>STATE_NEW\<close>, one that always
  reports \<open>STATE_FAILED\<close>, one that goes new, mined, confirmed.\<close>

definition tx_in_state :: "string \<Rightarrow> string \<Rightarrow> relayer_transaction" where
  "tx_in_state i s =
     \<lparr>tx_transactionID = i, tx_state = s, tx_hash = None, tx_transactionHash = None\<rparr>"

definition stuck_relay :: "string \<Rightarrow> nat \<Rightarrow> js_error + relayer_transaction" where
  "stuck_relay i k = Inr (tx_in_state i ''STATE_NEW'')"

definition failing_relay :: "string \<Rightarrow> nat \<Rightarrow> js_error + relayer_transaction" where
  "failing_relay i k = Inr (tx_in_state i ''STATE_FAILED'')"

definition confirming_relay :: "string \<Rightarrow> nat \<Rightarrow> js_error + relayer_transaction" where
  "confirming_relay i k =
     Inr (tx_in_state i
            (if k = 0 then ''STATE_NEW'' else if k = 1 then ''STATE_MINED'' else ''STATE_CONFIRMED''))"

section \<open>Properties\<close>

subsection \<open>Construction\<close>

text \<open>
  C5. When neither \<open>backend\<close> nor \<open>frontend\<close> is set, the constructor throws at once, with
  the error that names the missing signing mode: the result is the error, for every
  wallet constructor and every other field of the configuration, so no client object and
  no relay client exist.
\<close>

theorem constructor_rejects_missing_mode:
  assumes "backend cfg = None" and "frontend cfg = None"
  shows "RelayerClient_constructor wallet_address cfg =
           Inl (Error (''Relayer configuration must include either 'backend' or 'frontend' mode. '' @
                       ''For automated systems use 'backend' with privateKey. '' @
                       ''For web apps use 'frontend' with signer.''))"
  using assms by (simp add: RelayerClient_constructor_def)

theorem constructor_rejects_missing_mode_witness:
  "backend empty_config = None \<and> frontend empty_config = None \<and>
   RelayerClient_constructor sample_wallet_address empty_config =
     Inl (JsError ''Error''
            (''Relayer configuration must include either 'backend' or 'frontend' mode. '' @
             ''For automated systems use 'backend' with privateKey. '' @
             ''For web apps use 'frontend' with signer.''))"
proof -
  have b: "backend empty_config = None" by (simp add: empty_config_def)
  have f: "frontend empty_config = None" by (simp add: empty_config_def)
  show ?thesis
    using b f constructor_rejects_missing_mode [OF b f, of sample_wallet_address]
    by (simp add: Error_def)
qed

text \<open>
  C8. For a well-formed secret key (non-empty, accepted by the wallet constructor with
  address \<open>addr\<close>), construction in backend mode succeeds and stores exactly that address
  at once, with no resolution left pending. Two constructions from the same key, whatever
  else their configurations hold, therefore store the same address, and it is \<open>addr\<close>, the
  one an independent call of the wallet constructor on that key gives.
\<close>

theorem backend_address_deterministic:
  assumes "key \<noteq> []"
    and "wallet_address key = Inr addr"
    and "backend cfg1 = Some \<lparr>privateKey = key\<rparr>"
    and "backend cfg2 = Some \<lparr>privateKey = key\<rparr>"
  shows "\<exists>this1 this2.
           RelayerClient_constructor wallet_address cfg1 = Inr this1 \<and>
           RelayerClient_constructor wallet_address cfg2 = Inr this2 \<and>
           getWalletAddress this1 = getWalletAddress this2 \<and>
           getWalletAddress this1 = Some addr \<and>
           \<not> addressPending this1 \<and> \<not> addressPending this2"
  using assms
  by (simp add: RelayerClient_constructor_def backend_privateKey_def getWalletAddress_def)

theorem backend_address_deterministic_witness:
  "''0xKEY'' \<noteq> [] \<and>
   sample_wallet_address ''0xKEY'' = Inr ''0xADDR'' \<and>
   backend backend_only_config = Some \<lparr>privateKey = ''0xKEY''\<rparr> \<and>
   backend both_config = Some \<lparr>privateKey = ''0xKEY''\<rparr> \<and>
   (\<exists>this1 this2.
      RelayerClient_constructor sample_wallet_address backend_only_config = Inr this1 \<and>
      RelayerClient_constructor sample_wallet_address both_config = Inr this2 \<and>
      getWalletAddress this1 = getWalletAddress this2 \<and>
      getWalletAddress this1 = Some ''0xADDR'' \<and>
      \<not> addressPending this1 \<and> \<not> addressPending this2)"
proof -
  have k: "''0xKEY'' \<noteq> []" by simp
  have w: "sample_wallet_address ''0xKEY'' = Inr ''0xADDR''"
    by (simp add: sample_wallet_address_def)
  have b1: "backend backend_only_config = Some \<lparr>privateKey = ''0xKEY''\<rparr>"
    by (simp add: backend_only_config_def empty_config_def)
  have b2: "backend both_config = Some \<lparr>privateKey = ''0xKEY''\<rparr>"
    by (simp add: both_config_def backend_only_config_def empty_config_def)
  from backend_address_deterministic
         [of "''0xKEY''" sample_wallet_address "''0xADDR''" backend_only_config both_config,
          OF k w b1 b2]
       k w b1 b2
  show ?thesis by blast
qed

text \<open>
  C9 (as amended). When \<open>backend\<close> carries a non-empty private key that the wallet
  constructor accepts and \<open>frontend\<close> carries a signer, construction succeeds in backend
  mode: the address is the wallet's, the relay client is built with the local wallet, and
  the frontend signer is not used (no address resolution is started on it).
\<close>

theorem backend_takes_precedence:
  assumes "backend cfg = Some \<lparr>privateKey = key\<rparr>"
    and "key \<noteq> []"
    and "wallet_address key = Inr addr"
    and "frontend cfg = Some \<lparr>signer = Some s\<rparr>"
  shows "RelayerClient_constructor wallet_address cfg =
           Inr \<lparr>client = \<lparr>rc_relayerUrl = relayerUrl_or_default cfg,
                          rc_chainId = chainId_or_default cfg,
                          rc_signer = LocalWallet key addr,
                          rc_auth = auth cfg\<rparr>,
                config = cfg,
                walletAddress = Some addr,
                addressPending = False\<rparr>"
  using assms by (simp add: RelayerClient_constructor_def backend_privateKey_def)

theorem backend_takes_precedence_witness:
  "backend both_config = Some \<lparr>privateKey = ''0xKEY''\<rparr> \<and>
   ''0xKEY'' \<noteq> [] \<and>
   sample_wallet_address ''0xKEY'' = Inr ''0xADDR'' \<and>
   frontend both_config = Some \<lparr>signer = Some sample_signer\<rparr> \<and>
   RelayerClient_constructor sample_wallet_address both_config =
     Inr \<lparr>client = \<lparr>rc_relayerUrl = ''https://relayer.polymarket.com'',
                    rc_chainId = 137,
                    rc_signer = LocalWallet ''0xKEY'' ''0xADDR'',
                    rc_auth = None\<rparr>,
          config = both_config,
          walletAddress = Some ''0xADDR'',
          addressPending = False\<rparr>"
proof -
  have b: "backend both_config = Some \<lparr>privateKey = ''0xKEY''\<rparr>"
    by (simp add: both_config_def backend_only_config_def empty_config_def)
  have k: "''0xKEY'' \<noteq> []" by simp
  have w: "sample_wallet_address ''0xKEY'' = Inr ''0xADDR''"
    by (simp add: sample_wallet_address_def)
  have f: "frontend both_config = Some \<lparr>signer = Some sample_signer\<rparr>"
    by (simp add: both_config_def backend_only_config_def empty_config_def)
  have u: "relayerUrl_or_default both_config = ''https://relayer.polymarket.com''"
    by (simp add: relayerUrl_or_default_def DEFAULT_RELAYER_URL_def both_config_def
        backend_only_config_def empty_config_def)
  have c: "chainId_or_default both_config = 137"
    by (simp add: chainId_or_default_def both_config_def backend_only_config_def
        empty_config_def)
  have a: "auth both_config = None"
    by (simp add: both_config_def backend_only_config_def empty_config_def)
  from backend_takes_precedence
         [of both_config "''0xKEY''" sample_wallet_address "''0xADDR''" sample_signer,
          OF b k w f]
  show ?thesis using b k w f by (simp add: u c a)
qed

text \<open>
  The claim as first stated, for every configuration with both modes set, fails on two
  configurations that set both: with the empty private key the frontend signer is the one
  used, and with a key the wallet constructor rejects construction throws.
\<close>

theorem backend_precedence_counterexample:
  "backend both_empty_key_config = Some \<lparr>privateKey = []\<rparr> \<and>
   frontend both_empty_key_config = Some \<lparr>signer = Some sample_signer\<rparr> \<and>
   RelayerClient_constructor sample_wallet_address both_empty_key_config =
     Inr \<lparr>client = \<lparr>rc_relayerUrl = ''https://relayer.polymarket.com'',
                    rc_chainId = 137,
                    rc_signer = ProvidedSigner sample_signer,
                    rc_auth = None\<rparr>,
          config = both_empty_key_config,
          walletAddress = None,
          addressPending = True\<rparr> \<and>
   backend both_bad_key_config = Some \<lparr>privateKey = ''0xZZ''\<rparr> \<and>
   frontend both_bad_key_config = Some \<lparr>signer = Some sample_signer\<rparr> \<and>
   RelayerClient_constructor sample_wallet_address both_bad_key_config =
     Inl (JsError ''TypeError'' ''invalid private key'')"
  by (simp add: RelayerClient_constructor_def backend_privateKey_def frontend_signer_def
      both_empty_key_config_def both_bad_key_config_def frontend_only_config_def
      empty_config_def sample_wallet_address_def sample_signer_def register_reaction_def
      relayerUrl_or_default_def chainId_or_default_def DEFAULT_RELAYER_URL_def)

subsection \<open>The cached wallet address\<close>












subsection \<open>The nonce resolver\<close>


subsection \<open>Submission\<close>

text \<open>
  C2 (as amended). For every list of calls, empty or not, and every metadata value,
  \<open>executeProxyTransactions\<close> makes exactly one call on the relay client, handing it the
  list and the metadata unchanged, and its outcome is decided by that call alone: the
  record built from the response when the relay client accepts; when it rejects with an
  error object whose message reads \<open>m\<close>, the plain \<open>Error\<close>
  "Failed to execute proxy transactions: m"; when it rejects with \<open>undefined\<close> or \<open>null\<close>,
  the TypeError of reading their message; when reading the message throws, what that
  read throws. The module itself checks nothing about the list.
\<close>

theorem executeProxyTransactions_forwards:
  "executeProxyTransactions rc this transactions metadata =
     (case rc_executeProxyTransactions rc transactions metadata of
        Inr response \<Rightarrow>
          Inr \<lparr>transactionId = r_transactionID response, state = r_state response,
               hash = r_hash response, transactionHash = r_transactionHash response\<rparr>
      | Inl (JsError name m) \<Rightarrow>
          Inl (JsError ''Error'' (''Failed to execute proxy transactions: '' @ m))
      | Inl (ThrownNullish k) \<Rightarrow> Inl (TypeError_reading k ''message'')
      | Inl (ThrowingMessage t) \<Rightarrow> Inl t,
      [ExecuteProxyTransactions transactions metadata]) \<and>
   snd (executeProxyTransactions rc this [] metadata) = [ExecuteProxyTransactions [] metadata]"
  by (simp add: executeProxyTransactions_def rethrow_def Error_def response_record_def
      split: sum.splits js_error.splits)

text \<open>
  The claim as first stated fails: with a relay client that accepts, the empty list is
  submitted and the call succeeds.
\<close>

theorem empty_batch_counterexample:
  "executeProxyTransactions accepting_transport sample_backend_client [] None =
     (Inr \<lparr>transactionId = Some ''tx-1'', state = Some ''STATE_NEW'',
           hash = None, transactionHash = None\<rparr>,
      [ExecuteProxyTransactions [] None])"
  by (simp add: executeProxyTransactions_def accepting_transport_def response_record_def
      sample_response_def)

text \<open>
  C3 (as amended). Whenever the relay client answers a submission (proxy batch, safe
  batch or safe deployment) with a response, the operation succeeds and the record it
  returns carries each field of the response as it is, an absent field as undefined; this
  holds for the identifier like for the other three fields.
\<close>

theorem submission_copies_response:
  "(rc_executeProxyTransactions rc ptxs metadata = Inr response \<longrightarrow>
      fst (executeProxyTransactions rc this ptxs metadata) =
        Inr \<lparr>transactionId = r_transactionID response, state = r_state response,
             hash = r_hash response, transactionHash = r_transactionHash response\<rparr>) \<and>
   (rc_executeSafeTransactions rc stxs metadata = Inr response \<longrightarrow>
      fst (executeSafeTransactions rc this stxs metadata) =
        Inr \<lparr>transactionId = r_transactionID response, state = r_state response,
             hash = r_hash response, transactionHash = r_transactionHash response\<rparr>) \<and>
   (rc_deploySafe rc = Inr response \<longrightarrow>
      fst (deploySafe rc this) =
        Inr \<lparr>transactionId = r_transactionID response, state = r_state response,
             hash = r_hash response, transactionHash = r_transactionHash response\<rparr>)"
  by (simp add: executeProxyTransactions_def executeSafeTransactions_def deploySafe_def
      response_record_def)

theorem submission_copies_response_witness:
  "rc_executeProxyTransactions accepting_transport [] (Some ''note'') = Inr sample_response \<and>
   fst (executeProxyTransactions accepting_transport sample_backend_client [] (Some ''note'')) =
     Inr \<lparr>transactionId = Some ''tx-1'', state = Some ''STATE_NEW'',
          hash = None, transactionHash = None\<rparr> \<and>
   rc_executeSafeTransactions accepting_transport [] (Some ''note'') = Inr sample_response \<and>
   fst (executeSafeTransactions accepting_transport sample_backend_client [] (Some ''note'')) =
     Inr \<lparr>transactionId = Some ''tx-1'', state = Some ''STATE_NEW'',
          hash = None, transactionHash = None\<rparr> \<and>
   rc_deploySafe accepting_transport = Inr sample_response \<and>
   fst (deploySafe accepting_transport sample_backend_client) =
     Inr \<lparr>transactionId = Some ''tx-1'', state = Some ''STATE_NEW'',
          hash = None, transactionHash = None\<rparr>"
proof -
  have p: "rc_executeProxyTransactions accepting_transport [] (Some ''note'') = Inr sample_response"
    by (simp add: accepting_transport_def)
  have s: "rc_executeSafeTransactions accepting_transport [] (Some ''note'') = Inr sample_response"
    by (simp add: accepting_transport_def)
  have d: "rc_deploySafe accepting_transport = Inr sample_response"
    by (simp add: accepting_transport_def)
  from submission_copies_response
         [of accepting_transport "[]" "Some ''note''" sample_response sample_backend_client "[]"]
       p s d
  show ?thesis by (simp add: sample_response_def)
qed

text \<open>
  The claim as first stated fails: a response without the identifier does not make the
  operation fail; the record comes back with its identifier undefined.
\<close>

theorem missing_identifier_counterexample:
  "r_transactionID state_only_response = None \<and>
   rc_deploySafe anonymous_transport = Inr state_only_response \<and>
   deploySafe anonymous_transport sample_backend_client =
     (Inr \<lparr>transactionId = None, state = Some ''STATE_NEW'',
           hash = None, transactionHash = None\<rparr>,
      [DeploySafe])"
  by (simp add: deploySafe_def anonymous_transport_def accepting_transport_def
      response_record_def state_only_response_def)

subsection \<open>Waiting for a transaction\<close>

text \<open>
  C4 (as amended). With its optional arguments omitted, \<open>waitForTransaction\<close> polls with
  desiredStates = ["STATE_CONFIRMED"], failState = "STATE_FAILED", maxPolls = 60 and
  pollFrequency = 2000: these are the arguments the relay client's \<open>pollUntilState\<close>
  receives, and the call is the same as the one that passes them explicitly.
\<close>

theorem waitForTransaction_defaults:
  "snd (waitForTransaction rc this transactionId' None None None None) =
     [PollUntilState transactionId' [''STATE_CONFIRMED''] ''STATE_FAILED'' 60 2000] \<and>
   waitForTransaction rc this transactionId' None None None None =
     waitForTransaction rc this transactionId'
       (Some [''STATE_CONFIRMED'']) (Some ''STATE_FAILED'') (Some 60) (Some 2000)"
  by (simp add: waitForTransaction_def Let_def split: sum.splits)

text \<open>
  The claim as first stated names the states "CONFIRMED" and "FAILED"; the states polled
  for are not those.
\<close>

theorem waitForTransaction_defaults_counterexample:
  "snd (waitForTransaction accepting_transport sample_backend_client ''tx-1'' None None None None) \<noteq>
     [PollUntilState ''tx-1'' [''CONFIRMED''] ''FAILED'' 60 2000]"
  by (simp add: waitForTransaction_def accepting_transport_def Let_def)

text \<open>
  C7 (as amended). \<open>waitForTransaction\<close> takes no cancellation signal: it makes one call
  of the relay client's \<open>pollUntilState\<close> with its five arguments (an omitted one at its
  default), and that call decides the outcome. A value \<open>pollUntilState\<close> returns is
  returned unchanged. When it throws an error object whose message reads \<open>m\<close>, whatever
  the name of the error ("Cancelled" included), the operation fails with the plain
  \<open>Error\<close> "Failed to wait for transaction: m"; when it throws \<open>undefined\<close> or \<open>null\<close>,
  with the TypeError of reading their message; when reading the message throws, with
  what that read throws.
\<close>

theorem waitForTransaction_rethrows:
  "waitForTransaction rc this transactionId' desiredStates failState maxPolls pollFrequency =
     (case rc_pollUntilState rc transactionId'
             (case desiredStates of None \<Rightarrow> [''STATE_CONFIRMED''] | Some d \<Rightarrow> d)
             (case failState of None \<Rightarrow> ''STATE_FAILED'' | Some f \<Rightarrow> f)
             (case maxPolls of None \<Rightarrow> 60 | Some m \<Rightarrow> m)
             (case pollFrequency of None \<Rightarrow> 2000 | Some p \<Rightarrow> p) of
        Inr r \<Rightarrow> Inr r
      | Inl (JsError name m) \<Rightarrow>
          Inl (JsError ''Error'' (''Failed to wait for transaction: '' @ m))
      | Inl (ThrownNullish k) \<Rightarrow> Inl (TypeError_reading k ''message'')
      | Inl (ThrowingMessage t) \<Rightarrow> Inl t,
      [PollUntilState transactionId'
         (case desiredStates of None \<Rightarrow> [''STATE_CONFIRMED''] | Some d \<Rightarrow> d)
         (case failState of None \<Rightarrow> ''STATE_FAILED'' | Some f \<Rightarrow> f)
         (case maxPolls of None \<Rightarrow> 60 | Some m \<Rightarrow> m)
         (case pollFrequency of None \<Rightarrow> 2000 | Some p \<Rightarrow> p)])"
  by (simp add: waitForTransaction_def rethrow_def Error_def Let_def
      split: sum.splits js_error.splits)

text \<open>
  The claim as first stated fails even when the relay client itself reports an abort
  with an error named "Cancelled": the caller gets a plain \<open>Error\<close>, the very outcome of
  an ordinary failure of the relay client with the same message.
\<close>

theorem cancellation_counterexample:
  "rc_pollUntilState aborting_transport ''tx-1'' [''STATE_CONFIRMED''] ''STATE_FAILED'' 60 2000 =
     Inl (JsError ''Cancelled'' ''aborted'') \<and>
   waitForTransaction aborting_transport sample_backend_client ''tx-1'' None None None None =
     (Inl (JsError ''Error'' ''Failed to wait for transaction: aborted''),
      [PollUntilState ''tx-1'' [''STATE_CONFIRMED''] ''STATE_FAILED'' 60 2000]) \<and>
   waitForTransaction aborting_transport sample_backend_client ''tx-1'' None None None None =
     waitForTransaction broken_transport sample_backend_client ''tx-1'' None None None None"
  by (simp add: waitForTransaction_def aborting_transport_def broken_transport_def
      accepting_transport_def rethrow_def Error_def Let_def)

subsection \<open>The polling loop\<close>

lemma poll_loop_skip:
  "\<forall>k<j. still_pending ds fs (relay (p + k)) \<Longrightarrow> j \<le> n \<Longrightarrow>
     poll_loop relay ds fs n p = poll_loop relay ds fs (n - j) (p + j)"
proof (induction j arbitrary: n p)
  case 0
  then show ?case by simp
next
  case (Suc j)
  from Suc.prems(2) obtain m where n: "n = Suc m" and jm: "j \<le> m"
    by (cases n) simp_all
  from Suc.prems(1) have "still_pending ds fs (relay (p + 0))"
    by blast
  then obtain tx where tx: "relay p = Inr tx"
    "tx_state tx \<notin> set ds" "tx_state tx \<noteq> fs"
    by (auto simp: still_pending_def split: sum.splits)
  have rest: "\<forall>k<j. still_pending ds fs (relay (Suc p + k))"
  proof (intro allI impI)
    fix k assume "k < j"
    then have "Suc k < Suc j" by simp
    with Suc.prems(1) have "still_pending ds fs (relay (p + Suc k))" by blast
    then show "still_pending ds fs (relay (Suc p + k))" by simp
  qed
  from Suc.IH [OF rest jm] n tx show ?case by simp
qed

lemma poll_loop_exhausted:
  assumes "\<forall>k<n. still_pending ds fs (relay k)"
  shows "poll_loop relay ds fs n 0 = (Inr None, n)"
  using poll_loop_skip [of n ds fs relay 0 n] assms by simp

lemma poll_loop_desired:
  assumes "\<forall>k<j. still_pending ds fs (relay k)" and "j < n"
    and "relay j = Inr tx" and "tx_state tx \<in> set ds"
  shows "poll_loop relay ds fs n 0 = (Inr (Some tx), Suc j)"
proof -
  from assms(2) obtain m where m: "n - j = Suc m"
    by (cases "n - j") simp_all
  from poll_loop_skip [of j ds fs relay 0 n] assms(1,2)
  have "poll_loop relay ds fs n 0 = poll_loop relay ds fs (Suc m) j"
    by (simp add: m)
  with assms(3,4) show ?thesis by simp
qed

lemma poll_loop_failed:
  assumes "\<forall>k<j. still_pending ds fs (relay k)" and "j < n"
    and "relay j = Inr tx" and "tx_state tx = fs" and "fs \<notin> set ds"
  shows "poll_loop relay ds fs n 0 = (Inr None, Suc j)"
proof -
  from assms(2) obtain m where m: "n - j = Suc m"
    by (cases "n - j") simp_all
  from poll_loop_skip [of j ds fs relay 0 n] assms(1,2)
  have "poll_loop relay ds fs n 0 = poll_loop relay ds fs (Suc m) j"
    by (simp add: m)
  with assms(3,4,5) show ?thesis by simp
qed

lemma waitForTransaction_polling_transport:
  "fst (waitForTransaction (polling_transport relay rc) this i (Some ds) (Some fs) (Some mp) pf) =
     (case fst (poll_loop (relay i) ds fs (nat mp) 0) of
        Inl e \<Rightarrow> Inl (rethrow ''Failed to wait for transaction'' e)
      | Inr r \<Rightarrow> Inr r)"
  by (simp add: waitForTransaction_def polling_transport_def pollUntilState_def Let_def
      split: sum.splits)

text \<open>
  C1. Let \<open>waitForTransaction\<close> run on a relay client whose \<open>pollUntilState\<close> is the polling
  loop, against a relay that answers the \<open>k\<close>-th query for the transaction with
  \<open>relay i k\<close>. Suppose the first \<open>j\<close> answers are records in a state that is neither
  desired nor the fail state, and \<open>j\<close> is below \<open>maxPolls\<close>.
  If answer \<open>j\<close> is a record in a desired state, that record is returned, after \<open>j + 1\<close>
  queries.
  If answer \<open>j\<close> is a record in the fail state (not itself desired), the "not reached"
  result is returned, after \<open>j + 1\<close> queries: after a single one when the relay reports
  the fail state at once, whatever budget remains.
  If all of the first \<open>maxPolls\<close> answers are such non-terminal records, exactly
  \<open>maxPolls\<close> queries are made and the "not reached" result is returned; nothing is
  thrown.
\<close>

theorem waitForTransaction_polls:
  "(j < nat maxPolls \<and> (\<forall>k<j. still_pending desiredStates failState (relay i k)) \<and>
    relay i j = Inr tx \<and> tx_state tx \<in> set desiredStates \<longrightarrow>
      fst (waitForTransaction (polling_transport relay rc) this i
             (Some desiredStates) (Some failState) (Some maxPolls) pollFrequency) =
        Inr (Some tx) \<and>
      snd (pollUntilState relay i desiredStates failState maxPolls interval) = Suc j) \<and>
   (j < nat maxPolls \<and> (\<forall>k<j. still_pending desiredStates failState (relay i k)) \<and>
    relay i j = Inr tx \<and> tx_state tx = failState \<and> failState \<notin> set desiredStates \<longrightarrow>
      fst (waitForTransaction (polling_transport relay rc) this i
             (Some desiredStates) (Some failState) (Some maxPolls) pollFrequency) =
        Inr None \<and>
      snd (pollUntilState relay i desiredStates failState maxPolls interval) = Suc j) \<and>
   ((\<forall>k<nat maxPolls. still_pending desiredStates failState (relay i k)) \<longrightarrow>
      fst (waitForTransaction (polling_transport relay rc) this i
             (Some desiredStates) (Some failState) (Some maxPolls) pollFrequency) =
        Inr None \<and>
      snd (pollUntilState relay i desiredStates failState maxPolls interval) = nat maxPolls)"
proof -
  note w = waitForTransaction_polling_transport
             [of relay rc this i desiredStates failState maxPolls pollFrequency]
  have desired:
    "fst (waitForTransaction (polling_transport relay rc) this i
            (Some desiredStates) (Some failState) (Some maxPolls) pollFrequency) =
       Inr (Some tx) \<and>
     snd (pollUntilState relay i desiredStates failState maxPolls interval) = Suc j"
    if "j < nat maxPolls" and "\<forall>k<j. still_pending desiredStates failState (relay i k)"
      and "relay i j = Inr tx" and "tx_state tx \<in> set desiredStates"
    using poll_loop_desired [OF that(2,1,3,4)] w by (simp add: pollUntilState_def)
  have failed:
    "fst (waitForTransaction (polling_transport relay rc) this i
            (Some desiredStates) (Some failState) (Some maxPolls) pollFrequency) =
       Inr None \<and>
     snd (pollUntilState relay i desiredStates failState maxPolls interval) = Suc j"
    if "j < nat maxPolls" and "\<forall>k<j. still_pending desiredStates failState (relay i k)"
      and "relay i j = Inr tx" and "tx_state tx = failState"
      and "failState \<notin> set desiredStates"
    using poll_loop_failed [OF that(2,1,3,4,5)] w by (simp add: pollUntilState_def)
  have exhausted:
    "fst (waitForTransaction (polling_transport relay rc) this i
            (Some desiredStates) (Some failState) (Some maxPolls) pollFrequency) =
       Inr None \<and>
     snd (pollUntilState relay i desiredStates failState maxPolls interval) = nat maxPolls"
    if "\<forall>k<nat maxPolls. still_pending desiredStates failState (relay i k)"
    using poll_loop_exhausted [OF that] w by (simp add: pollUntilState_def)
  from desired failed exhausted show ?thesis by blast
qed
theorem waitForTransaction_polls_witness:
  "(2::nat) < nat 60 \<and>
   still_pending [''STATE_CONFIRMED''] ''STATE_FAILED'' (confirming_relay ''tx-1'' 0) \<and>
   still_pending [''STATE_CONFIRMED''] ''STATE_FAILED'' (confirming_relay ''tx-1'' 1) \<and>
   confirming_relay ''tx-1'' 2 = Inr (tx_in_state ''tx-1'' ''STATE_CONFIRMED'') \<and>
   tx_state (tx_in_state ''tx-1'' ''STATE_CONFIRMED'') \<in> set [''STATE_CONFIRMED''] \<and>
   fst (waitForTransaction (polling_transport confirming_relay accepting_transport)
          sample_backend_client ''tx-1''
          (Some [''STATE_CONFIRMED'']) (Some ''STATE_FAILED'') (Some 60) None) =
     Inr (Some (tx_in_state ''tx-1'' ''STATE_CONFIRMED'')) \<and>
   snd (pollUntilState confirming_relay ''tx-1'' [''STATE_CONFIRMED''] ''STATE_FAILED'' 60 2000) = 3 \<and>
   (0::nat) < nat 60 \<and>
   failing_relay ''tx-1'' 0 = Inr (tx_in_state ''tx-1'' ''STATE_FAILED'') \<and>
   tx_state (tx_in_state ''tx-1'' ''STATE_FAILED'') = ''STATE_FAILED'' \<and>
   ''STATE_FAILED'' \<notin> set [''STATE_CONFIRMED''] \<and>
   fst (waitForTransaction (polling_transport failing_relay accepting_transport)
          sample_backend_client ''tx-1''
          (Some [''STATE_CONFIRMED'']) (Some ''STATE_FAILED'') (Some 60) None) =
     Inr None \<and>
   snd (pollUntilState failing_relay ''tx-1'' [''STATE_CONFIRMED''] ''STATE_FAILED'' 60 2000) = 1 \<and>
   still_pending [''STATE_CONFIRMED''] ''STATE_FAILED'' (stuck_relay ''tx-1'' 0) \<and>
   still_pending [''STATE_CONFIRMED''] ''STATE_FAILED'' (stuck_relay ''tx-1'' 1) \<and>
   still_pending [''STATE_CONFIRMED''] ''STATE_FAILED'' (stuck_relay ''tx-1'' 2) \<and>
   fst (waitForTransaction (polling_transport stuck_relay accepting_transport)
          sample_backend_client ''tx-1''
          (Some [''STATE_CONFIRMED'']) (Some ''STATE_FAILED'') (Some 3) None) =
     Inr None \<and>
   snd (pollUntilState stuck_relay ''tx-1'' [''STATE_CONFIRMED''] ''STATE_FAILED'' 3 2000) = 3"
proof -
  have c1: "(2::nat) < nat 60" by simp
  have c2: "\<forall>k<2. still_pending [''STATE_CONFIRMED''] ''STATE_FAILED'' (confirming_relay ''tx-1'' k)"
    by (simp add: less_2_cases_iff still_pending_def confirming_relay_def tx_in_state_def)
  have c3: "confirming_relay ''tx-1'' 2 = Inr (tx_in_state ''tx-1'' ''STATE_CONFIRMED'')"
    by (simp add: confirming_relay_def)
  have c4: "tx_state (tx_in_state ''tx-1'' ''STATE_CONFIRMED'') \<in> set [''STATE_CONFIRMED'']"
    by (simp add: tx_in_state_def)
  have f1: "(0::nat) < nat 60" by simp
  have f2: "\<forall>k<0. still_pending [''STATE_CONFIRMED''] ''STATE_FAILED'' (failing_relay ''tx-1'' k)"
    by simp
  have f3: "failing_relay ''tx-1'' 0 = Inr (tx_in_state ''tx-1'' ''STATE_FAILED'')"
    by (simp add: failing_relay_def)
  have f4: "tx_state (tx_in_state ''tx-1'' ''STATE_FAILED'') = ''STATE_FAILED''"
    by (simp add: tx_in_state_def)
  have f5: "''STATE_FAILED'' \<notin> set [''STATE_CONFIRMED'']" by simp
  have s1: "\<forall>k<nat 3. still_pending [''STATE_CONFIRMED''] ''STATE_FAILED'' (stuck_relay ''tx-1'' k)"
    by (simp add: still_pending_def stuck_relay_def tx_in_state_def)
  note C = waitForTransaction_polls
             [of 2 60 "[''STATE_CONFIRMED'']" "''STATE_FAILED''" confirming_relay "''tx-1''"
                 "tx_in_state ''tx-1'' ''STATE_CONFIRMED''" accepting_transport
                 sample_backend_client None 2000]
  note F = waitForTransaction_polls
             [of 0 60 "[''STATE_CONFIRMED'']" "''STATE_FAILED''" failing_relay "''tx-1''"
                 "tx_in_state ''tx-1'' ''STATE_FAILED''" accepting_transport
                 sample_backend_client None 2000]
  note S = waitForTransaction_polls
             [of 0 3 "[''STATE_CONFIRMED'']" "''STATE_FAILED''" stuck_relay "''tx-1''"
                 "tx_in_state ''tx-1'' ''STATE_NEW''" accepting_transport
                 sample_backend_client None 2000]
  from C c1 c2 c3 c4 have c:
    "fst (waitForTransaction (polling_transport confirming_relay accepting_transport)
            sample_backend_client ''tx-1''
            (Some [''STATE_CONFIRMED'']) (Some ''STATE_FAILED'') (Some 60) None) =
       Inr (Some (tx_in_state ''tx-1'' ''STATE_CONFIRMED'')) \<and>
     snd (pollUntilState confirming_relay ''tx-1'' [''STATE_CONFIRMED''] ''STATE_FAILED'' 60 2000) = 3"
    by simp
  from F f1 f2 f3 f4 f5 have f:
    "fst (waitForTransaction (polling_transport failing_relay accepting_transport)
            sample_backend_client ''tx-1''
            (Some [''STATE_CONFIRMED'']) (Some ''STATE_FAILED'') (Some 60) None) =
       Inr None \<and>
     snd (pollUntilState failing_relay ''tx-1'' [''STATE_CONFIRMED''] ''STATE_FAILED'' 60 2000) = 1"
    by simp
  from S s1 have s:
    "fst (waitForTransaction (polling_transport stuck_relay accepting_transport)
            sample_backend_client ''tx-1''
            (Some [''STATE_CONFIRMED'']) (Some ''STATE_FAILED'') (Some 3) None) =
       Inr None \<and>
     snd (pollUntilState stuck_relay ''tx-1'' [''STATE_CONFIRMED''] ''STATE_FAILED'' 3 2000) = 3"
    by simp
  have c2': "still_pending [''STATE_CONFIRMED''] ''STATE_FAILED'' (confirming_relay ''tx-1'' 0)"
    "still_pending [''STATE_CONFIRMED''] ''STATE_FAILED'' (confirming_relay ''tx-1'' 1)"
    using c2 by simp_all
  have s1': "still_pending [''STATE_CONFIRMED''] ''STATE_FAILED'' (stuck_relay ''tx-1'' 0)"
    "still_pending [''STATE_CONFIRMED''] ''STATE_FAILED'' (stuck_relay ''tx-1'' 1)"
    "still_pending [''STATE_CONFIRMED''] ''STATE_FAILED'' (stuck_relay ''tx-1'' 2)"
    using s1 by simp_all
  from c1 c2' c3 c4 c f1 f3 f4 f5 f s1' s show ?thesis by blast
qed

end
